theory Spec2Isabelle
  imports Complex_Main
begin

section \<open>The experiment notebook: cluster sizing\<close>

text \<open>
  The notebook \<^verbatim>\<open>examples/workflow.ipynb\<close> is a Python script run cell by cell. Its global
  variables are modelled as the fields of a record; a variable that a branch leaves unbound
  is \<open>None\<close>, and reading it is a \<open>NameError\<close>.
\<close>

datatype py_error = NameError string | RequestError string

text \<open>Python truth of \<^verbatim>\<open>yarn\<close>: \<^verbatim>\<open>None\<close> and the empty string are false.\<close>

definition truthy :: "string option \<Rightarrow> bool" where
  "truthy yarn = (case yarn of None \<Rightarrow> False | Some s \<Rightarrow> s \<noteq> [])"

record settings =
  master :: string
  num_cores :: int
  num_executors :: "int option"
  max_num_executors :: "int option"

text \<open>
  Cell 2:
  \<^verbatim>\<open>
  if not yarn:
      master = "local[*]"
      num_cores = 3
      num_executors = 1
  else:
      master = "yarn-client"
      max_num_executors = 20
      num_cores = 3
  \<close>
\<close>

definition cell_2 :: "string option \<Rightarrow> settings" where
  "cell_2 yarn =
     (if \<not> truthy yarn
      then \<lparr>master = ''local[*]'', num_cores = 3, num_executors = Some 1,
            max_num_executors = None\<rparr>
      else \<lparr>master = ''yarn-client'', num_cores = 3, num_executors = None,
            max_num_executors = Some 20\<rparr>)"

definition yarn_metrics_uri :: "string \<Rightarrow> string" where
  "yarn_metrics_uri yarn = ''http://'' @ yarn @ ''/ws/v1/cluster/metrics''"

text \<open>
  Cell 3. The HTTP request and the reading of \<^verbatim>\<open>activeNodes\<close> from its JSON answer,
  \<^verbatim>\<open>int(requests.get(uri).json()['clusterMetrics']['activeNodes'])\<close>, are the parameter
  \<open>fetch\<close>: the ResourceManager is outside the program, and the request may fail.
  \<^verbatim>\<open>
  if yarn:
      ...
      num_active_nodes = int(data['clusterMetrics']['activeNodes'])
      num_executors = num_active_nodes
      if max_num_executors > num_executors:
          num_executors = max_num_executors
  \<close>
\<close>

definition cell_3 ::
  "(string \<Rightarrow> py_error + int) \<Rightarrow> string option \<Rightarrow> settings \<Rightarrow> py_error + settings" where
  "cell_3 fetch yarn s =
     (case yarn of
        None \<Rightarrow> Inr s
      | Some y \<Rightarrow>
          if y = [] then Inr s
          else (case fetch (yarn_metrics_uri y) of
                  Inl e \<Rightarrow> Inl e
                | Inr num_active_nodes \<Rightarrow>
                    (let s1 = s\<lparr>num_executors := Some num_active_nodes\<rparr>
                     in case max_num_executors s1 of
                          None \<Rightarrow> Inl (NameError ''max_num_executors'')
                        | Some m \<Rightarrow>
                            if m > num_active_nodes
                            then Inr (s1\<lparr>num_executors := Some m\<rparr>)
                            else Inr s1)))"

text \<open>Cell 4: \<^verbatim>\<open>num_workers = num_executors * num_cores\<close>.\<close>

definition cell_4 :: "settings \<Rightarrow> py_error + int" where
  "cell_4 s =
     (case num_executors s of
        None \<Rightarrow> Inl (NameError ''num_executors'')
      | Some e \<Rightarrow> Inr (e * num_cores s))"

text \<open>Cells 2 and 3 in sequence, and then cell 4.\<close>

definition cluster_settings ::
  "(string \<Rightarrow> py_error + int) \<Rightarrow> string option \<Rightarrow> py_error + settings" where
  "cluster_settings fetch yarn = cell_3 fetch yarn (cell_2 yarn)"

definition num_workers :: "(string \<Rightarrow> py_error + int) \<Rightarrow> string option \<Rightarrow> py_error + int" where
  "num_workers fetch yarn =
     (case cluster_settings fetch yarn of Inl e \<Rightarrow> Inl e | Inr s \<Rightarrow> cell_4 s)"


section \<open>The experiment notebook: evaluation\<close>

text \<open>
  \<^verbatim>\<open>
  def evaluate(model):
      global testSet
      testSet = testSet.select("features_normalized", "label_index", "label")
      predictor = ModelPredictor(keras_model=trained_model, features_col="features_normalized")
      testSet = predictor.predict(testSet).toDF()
      testSet = index_transformer.transform(testSet).toDF()
      score = evaluator.evaluate(testSet)
      return score
  \<close>
  The Spark and Distributed Keras calls are the fields of \<open>library\<close>, over an abstract type
  of data frames, of models and of scores. The globals the function reads and writes are
  \<^verbatim>\<open>testSet\<close> and \<^verbatim>\<open>trained_model\<close>; the latter is unbound until the first trainer has run.
\<close>

record ('df, 'm, 's) library =
  select :: "string list \<Rightarrow> 'df \<Rightarrow> 'df"
  predict :: "'m \<Rightarrow> string \<Rightarrow> 'df \<Rightarrow> 'df"
  transform :: "'df \<Rightarrow> 'df"
  evaluator_evaluate :: "'df \<Rightarrow> 's"

record ('df, 'm) globals =
  testSet :: 'df
  trained_model :: "'m option"

definition evaluate ::
  "('df, 'm, 's) library \<Rightarrow> 'a \<Rightarrow> ('df, 'm) globals \<Rightarrow> (py_error + 's) \<times> ('df, 'm) globals" where
  "evaluate lib model g =
     (let g1 = g\<lparr>testSet := select lib [''features_normalized'', ''label_index'', ''label'']
                                (testSet g)\<rparr>
      in case trained_model g1 of
           None \<Rightarrow> (Inl (NameError ''trained_model''), g1)
         | Some tm \<Rightarrow>
             (let g2 = g1\<lparr>testSet := predict lib tm ''features_normalized'' (testSet g1)\<rparr>;
                  g3 = g2\<lparr>testSet := transform lib (testSet g2)\<rparr>;
                  score = evaluator_evaluate lib (testSet g3)
              in (Inr score, g3)))"


section \<open>The synchronization coordinator\<close>

text \<open>
  The notebook imports the trainers from \<^verbatim>\<open>distkeras.distributed\<close> and only constructs
  and calls them; the module itself is not among the sources. The coordinator below is
  therefore written from the specification's sections 3, 4.1 and 7. Weights are real
  numbers: rounding of machine floats is not modelled.
\<close>

text \<open>Modelled from the spec: the ParameterVector, an ordered sequence of numeric weights
  (section 3); its implementation in \<^verbatim>\<open>distkeras\<close> is missing.\<close>

type_synonym ParameterVector = "real list"

text \<open>Modelled from the spec: the ModelSnapshot \<^verbatim>\<open>{ parameters, version }\<close> of section 3, which
  also serves as the CenterState of the EASGD family; the class is missing.\<close>

record ModelSnapshot =
  parameters :: ParameterVector
  version :: int

text \<open>Modelled from the spec: the four training strategies of section 4.1; the trainer
  classes are missing.\<close>

datatype Strategy = SingleTrainer | EASGD | AsynchronousEASGD | DOWNPOUR

text \<open>Modelled from the spec: the TrainingConfig of section 3; the class is missing. The
  field \<open>communicationPeriod\<close> is the communication period of EASGD and the staleness bound
  of DOWNPOUR, which the specification lists as one field.\<close>

record TrainingConfig =
  strategy :: Strategy
  numWorkers :: nat
  batchSize :: nat
  learningRate :: real
  communicationPeriod :: nat
  rho :: real

text \<open>Modelled from the spec: the UpdateMessage \<^verbatim>\<open>{ workerId, baseVersion, delta }\<close> of
  section 3; the class is missing.\<close>

record UpdateMessage =
  workerId :: nat
  baseVersion :: int
  delta :: ParameterVector

text \<open>Modelled from the spec: the ApplyResult of \<^verbatim>\<open>submit\<close> (section 4.1), missing from the
  sources: the new version and whether the submission was accepted as it is, discounted for
  staleness or (DOWNPOUR) merged incrementally; to these are added the submission held at
  the round barrier of synchronous EASGD (section 5) and the rejected one (section 7). The
  staleness \<open>version - baseVersion\<close> is what the coordinator logs.\<close>

datatype Outcome =
  AcceptedAsIs | DiscountedForStaleness | MergedIncrementally | HeldAtBarrier | Rejected

record ApplyResult =
  newVersion :: int
  outcome :: Outcome
  staleness :: int

text \<open>Modelled from the spec: the state the Coordinator owns (sections 4.1 and 9), missing
  from the sources: its configuration, the authoritative snapshot, and the workers that
  have reported in the current round of synchronous EASGD, each with its delta, in receipt
  order.\<close>

record Coordinator =
  config :: TrainingConfig
  current :: ModelSnapshot
  reporters :: "(nat \<times> ParameterVector) list"

text \<open>Modelled from the spec: componentwise sum, difference and scaling of parameter
  vectors, and the average of the deltas of a round; the numeric library is missing. The
  average is only taken of a round's deltas, which are at least one.\<close>

definition vadd :: "ParameterVector \<Rightarrow> ParameterVector \<Rightarrow> ParameterVector" where
  "vadd xs ys = map2 (+) xs ys"

definition vsub :: "ParameterVector \<Rightarrow> ParameterVector \<Rightarrow> ParameterVector" where
  "vsub xs ys = map2 (-) xs ys"

definition smul :: "real \<Rightarrow> ParameterVector \<Rightarrow> ParameterVector" where
  "smul a xs = map ((*) a) xs"

definition average :: "nat \<Rightarrow> ParameterVector list \<Rightarrow> ParameterVector" where
  "average n ds = smul (1 / real (length ds)) (foldr vadd ds (replicate n 0))"

text \<open>Modelled from the spec: the Trainer constructs a Coordinator seeded with the initial
  model (section 4.3); the constructor is missing.\<close>

definition seed :: "TrainingConfig \<Rightarrow> ModelSnapshot \<Rightarrow> Coordinator" where
  "seed cfg initial = \<lparr>config = cfg, current = initial, reporters = []\<rparr>"

text \<open>Modelled from the spec: \<^verbatim>\<open>publish() -> ModelSnapshot\<close> returns the current authoritative
  snapshot (section 4.1); the method is missing.\<close>

definition publish :: "Coordinator \<Rightarrow> ModelSnapshot" where
  "publish c = current c"

text \<open>Modelled from the spec: a submission is applied when its result is one of the three
  accepting outcomes of section 4.1; the result class is missing.\<close>

definition applied :: "ApplyResult \<Rightarrow> bool" where
  "applied r = (outcome r = AcceptedAsIs \<or> outcome r = DiscountedForStaleness \<or>
                outcome r = MergedIncrementally)"

text \<open>Modelled from the spec: a new vector is produced on every update and the version
  counts the updates (section 3); the code that commits an update is missing.\<close>

definition commit :: "Coordinator \<Rightarrow> ParameterVector \<Rightarrow> Coordinator" where
  "commit c ps = c\<lparr>current := \<lparr>parameters = ps, version = version (current c) + 1\<rparr>\<rparr>"

text \<open>Modelled from the spec: \<^verbatim>\<open>submit(update) -> ApplyResult\<close> (sections 4.1 and 7); the
  method is missing.
  \<^item> A vector of another dimensionality is rejected and the state is left untouched.
  \<^item> SingleTrainer: the one worker's update is applied directly.
  \<^item> Synchronous EASGD: the update is held until every one of the \<open>numWorkers\<close> workers has
    reported once in the round; the last report adds \<open>rho * learningRate * average\<close> of the
    round's deltas to the center and opens a new round. The round collects exactly one
    update from every worker, so a second update of a worker in the same round is not
    taken.
  \<^item> Asynchronous EASGD: \<open>rho * learningRate * delta\<close> is added to the center at once.
  \<^item> DOWNPOUR: \<open>learningRate * gradient\<close> is subtracted at once.
  No strategy reads \<open>baseVersion\<close> but to log the staleness.\<close>

definition submit :: "Coordinator \<Rightarrow> UpdateMessage \<Rightarrow> Coordinator \<times> ApplyResult" where
  "submit c u =
     (let cfg = config c;
          p = parameters (current c);
          v = version (current c);
          d = delta u;
          stale = v - baseVersion u
      in if length d \<noteq> length p
         then (c, \<lparr>newVersion = v, outcome = Rejected, staleness = stale\<rparr>)
         else (case strategy cfg of
                 SingleTrainer \<Rightarrow>
                   (commit c (vadd p d),
                    \<lparr>newVersion = v + 1, outcome = AcceptedAsIs, staleness = stale\<rparr>)
               | EASGD \<Rightarrow>
                   if workerId u \<in> set (map fst (reporters c))
                   then (c, \<lparr>newVersion = v, outcome = Rejected, staleness = stale\<rparr>)
                   else (let r = reporters c @ [(workerId u, d)]
                         in if length r = numWorkers cfg
                            then (commit (c\<lparr>reporters := []\<rparr>)
                                    (vadd p (smul (rho cfg * learningRate cfg)
                                               (average (length p) (map snd r)))),
                                  \<lparr>newVersion = v + 1, outcome = AcceptedAsIs,
                                   staleness = stale\<rparr>)
                            else (c\<lparr>reporters := r\<rparr>,
                                  \<lparr>newVersion = v, outcome = HeldAtBarrier,
                                   staleness = stale\<rparr>))
               | AsynchronousEASGD \<Rightarrow>
                   (commit c (vadd p (smul (rho cfg * learningRate cfg) d)),
                    \<lparr>newVersion = v + 1, outcome = AcceptedAsIs, staleness = stale\<rparr>)
               | DOWNPOUR \<Rightarrow>
                   (commit c (vsub p (smul (learningRate cfg) d)),
                    \<lparr>newVersion = v + 1, outcome = MergedIncrementally,
                     staleness = stale\<rparr>)))"

text \<open>Modelled from the spec: updates are applied in receipt order (section 5), so a
  sequence of \<^verbatim>\<open>submit\<close> calls is a left-to-right run; \<open>published\<close> lists what \<^verbatim>\<open>publish\<close>
  returns before the first call and after each one. The coordinator's loop is missing.\<close>

fun run :: "Coordinator \<Rightarrow> UpdateMessage list \<Rightarrow> Coordinator" where
  "run c [] = c"
| "run c (u # us) = run (fst (submit c u)) us"

fun published :: "Coordinator \<Rightarrow> UpdateMessage list \<Rightarrow> ModelSnapshot list" where
  "published c [] = [publish c]"
| "published c (u # us) = publish c # published (fst (submit c u)) us"


section \<open>The experiment notebook: the distributed trainers\<close>

text \<open>
  Cells 35 and 41 construct the trainers:
  \<^verbatim>\<open>
  easgd_trainer = EASGD(keras_model=model, features_col="features_normalized", batch_size=500,
                        num_workers=num_workers, rho=5.0, learning_rate=0.2)
  downpour_trainer = DOWNPOUR(keras_model=model, features_col="features_normalized",
                              batch_size=10, num_workers=num_workers, learning_rate=0.2)
  \<close>
  What a call leaves to the library's defaults is a parameter of the definition.
\<close>

definition easgd_trainer :: "nat \<Rightarrow> nat \<Rightarrow> TrainingConfig" where
  "easgd_trainer workers period =
     \<lparr>strategy = EASGD, numWorkers = workers, batchSize = 500, learningRate = 0.2,
      communicationPeriod = period, rho = 5\<rparr>"

definition downpour_trainer :: "nat \<Rightarrow> nat \<Rightarrow> real \<Rightarrow> TrainingConfig" where
  "downpour_trainer workers bound elasticity =
     \<lparr>strategy = DOWNPOUR, numWorkers = workers, batchSize = 10, learningRate = 0.2,
      communicationPeriod = bound, rho = elasticity\<rparr>"


section \<open>Cluster sizing: the worker count\<close>

text \<open>
  Claim C10. The worker count is \<open>num_executors * num_cores\<close>. With \<^verbatim>\<open>yarn\<close> unset (or
  empty) it is exactly 3. With \<^verbatim>\<open>yarn\<close> set and \<open>n\<close> active nodes reported, the number of
  executors is \<open>max n 20\<close>: whenever the maximum of 20 exceeds the active node count the
  executors are raised to 20, never capped by it, and the worker count is \<open>max n 20 * 3\<close>.
\<close>

theorem num_workers_derivation:
  "(num_executors s = Some e \<longrightarrow> cell_4 s = Inr (e * num_cores s)) \<and>
   (\<not> truthy yarn \<longrightarrow> num_workers fetch yarn = Inr 3) \<and>
   (yarn = Some y \<and> y \<noteq> [] \<and> fetch (yarn_metrics_uri y) = Inr n \<longrightarrow>
      map_sum id num_executors (cluster_settings fetch yarn) = Inr (Some (max n 20)) \<and>
      map_sum id max_num_executors (cluster_settings fetch yarn) = Inr (Some 20) \<and>
      (n < 20 \<longrightarrow> map_sum id num_executors (cluster_settings fetch yarn) = Inr (Some 20)) \<and>
      num_workers fetch yarn = Inr (max n 20 * 3))"
proof (intro conjI impI)
  assume "num_executors s = Some e"
  then show "cell_4 s = Inr (e * num_cores s)"
    by (simp add: cell_4_def)
next
  assume "\<not> truthy yarn"
  then show "num_workers fetch yarn = Inr 3"
    by (cases yarn)
       (simp_all add: num_workers_def cluster_settings_def cell_2_def cell_3_def cell_4_def
          truthy_def)
next
  assume h: "yarn = Some y \<and> y \<noteq> [] \<and> fetch (yarn_metrics_uri y) = Inr n"
  then have t: "truthy yarn"
    by (simp add: truthy_def)
  from h t show "map_sum id num_executors (cluster_settings fetch yarn) = Inr (Some (max n 20))"
    by (auto simp add: cluster_settings_def cell_2_def cell_3_def max_def Let_def)
  from h t show "map_sum id max_num_executors (cluster_settings fetch yarn) = Inr (Some 20)"
    by (auto simp add: cluster_settings_def cell_2_def cell_3_def Let_def)
  from h t show "num_workers fetch yarn = Inr (max n 20 * 3)"
    by (auto simp add: num_workers_def cluster_settings_def cell_2_def cell_3_def cell_4_def
          max_def Let_def)
  assume "n < 20"
  with h t show "map_sum id num_executors (cluster_settings fetch yarn) = Inr (Some 20)"
    by (auto simp add: cluster_settings_def cell_2_def cell_3_def Let_def)
qed

theorem num_workers_derivation_witness:
  "num_workers (\<lambda>uri. if uri = ''http://rm:8088/ws/v1/cluster/metrics'' then Inr 5
                      else Inl (RequestError uri)) (Some ''rm:8088'') = Inr 60 \<and>
   num_workers (\<lambda>uri. Inr 32) (Some ''rm:8088'') = Inr 96 \<and>
   num_workers (\<lambda>uri. Inl (RequestError uri)) None = Inr 3 \<and>
   cell_4 \<lparr>master = ''yarn-client'', num_cores = 3, num_executors = Some 7,
           max_num_executors = Some 20\<rparr> = Inr 21"
  using
    num_workers_derivation [of "\<lparr>master = ''yarn-client'', num_cores = 3, num_executors = Some 7,
        max_num_executors = Some 20\<rparr>" 7 "Some ''rm:8088''"
      "\<lambda>uri. if uri = ''http://rm:8088/ws/v1/cluster/metrics'' then Inr 5
             else Inl (RequestError uri)" "''rm:8088''" 5]
    num_workers_derivation [of "\<lparr>master = ''yarn-client'', num_cores = 3, num_executors = Some 7,
        max_num_executors = Some 20\<rparr>" 7 "Some ''rm:8088''"
      "\<lambda>uri. Inr 32" "''rm:8088''" 32]
    num_workers_derivation [of "\<lparr>master = ''yarn-client'', num_cores = 3, num_executors = Some 7,
        max_num_executors = Some 20\<rparr>" 7 None
      "\<lambda>uri. Inl (RequestError uri)"]
  by (simp add: yarn_metrics_uri_def truthy_def)


section \<open>Evaluation: the argument is ignored\<close>

text \<open>
  Claim C9. \<open>evaluate\<close> ignores its argument: called in the same global state with any two
  arguments (of any types) it returns the same score, or raises the same error, and leaves
  the same global state, because the predictor is built from the global \<^verbatim>\<open>trained_model\<close>:
  the score is the evaluator's, of the test set as that model predicts it.
\<close>

theorem evaluate_ignores_model:
  "evaluate lib (m1 :: 'a) g = evaluate lib (m2 :: 'b) g \<and>
   fst (evaluate lib m1 g) =
     (case trained_model g of
        None \<Rightarrow> Inl (NameError ''trained_model'')
      | Some tm \<Rightarrow>
          Inr (evaluator_evaluate lib (transform lib (predict lib tm ''features_normalized''
                 (select lib [''features_normalized'', ''label_index'', ''label'']
                    (testSet g))))))"
proof
  show "evaluate lib m1 g = evaluate lib m2 g"
    by (simp add: evaluate_def)
  show "fst (evaluate lib m1 g) =
     (case trained_model g of
        None \<Rightarrow> Inl (NameError ''trained_model'')
      | Some tm \<Rightarrow>
          Inr (evaluator_evaluate lib (transform lib (predict lib tm ''features_normalized''
                 (select lib [''features_normalized'', ''label_index'', ''label'']
                    (testSet g))))))"
    by (cases "trained_model g") (simp_all add: evaluate_def Let_def)
qed

section \<open>The coordinator: submissions and versions\<close>

text \<open>What one \<open>submit\<close> does to the published snapshot.\<close>

lemma submit_cases:
  "(outcome (snd (submit c u)) = Rejected \<and> fst (submit c u) = c) \<or>
   (outcome (snd (submit c u)) = HeldAtBarrier \<and> current (fst (submit c u)) = current c) \<or>
   (applied (snd (submit c u)) \<and>
      version (current (fst (submit c u))) = version (current c) + 1)"
  by (cases "strategy (config c)")
     (simp_all add: submit_def Let_def commit_def applied_def)

lemma submit_version:
  "version (publish (fst (submit c u))) =
     (if applied (snd (submit c u)) then version (publish c) + 1 else version (publish c))"
  using submit_cases [of c u] by (auto simp: applied_def publish_def)

lemma submit_not_applied:
  "\<not> applied (snd (submit c u)) \<Longrightarrow> publish (fst (submit c u)) = publish c"
  using submit_cases [of c u] by (auto simp: publish_def)

lemma published_lower:
  "s \<in> set (published c us) \<Longrightarrow>
     version (publish c) \<le> version s \<and> (version s = version (publish c) \<longrightarrow> s = publish c)"
proof (induction us arbitrary: c)
  case Nil
  then show ?case by simp
next
  case (Cons u us)
  show ?case
  proof (cases "s = publish c")
    case True
    then show ?thesis by simp
  next
    case False
    with Cons.prems have "s \<in> set (published (fst (submit c u)) us)" by simp
    from Cons.IH [OF this]
    have ih: "version (publish (fst (submit c u))) \<le> version s"
      "version s = version (publish (fst (submit c u))) \<longrightarrow> s = publish (fst (submit c u))"
      by simp_all
    show ?thesis
    proof (cases "applied (snd (submit c u))")
      case True
      with ih submit_version [of c u] show ?thesis by simp
    next
      case False
      with ih submit_version [of c u] submit_not_applied [of c u] show ?thesis by simp
    qed
  qed
qed

lemma published_sorted: "sorted (map version (published c us))"
proof (induction us arbitrary: c)
  case Nil
  then show ?case by simp
next
  case (Cons u us)
  have "version (publish c) \<le> version s" if "s \<in> set (published (fst (submit c u)) us)" for s
  proof -
    from published_lower [OF that] have "version (publish (fst (submit c u))) \<le> version s"
      by simp
    moreover have "version (publish c) \<le> version (publish (fst (submit c u)))"
      by (simp add: submit_version)
    ultimately show ?thesis by simp
  qed
  with Cons.IH [of "fst (submit c u)"] show ?case by auto
qed

lemma published_same_version:
  "s \<in> set (published c us) \<Longrightarrow> t \<in> set (published c us) \<Longrightarrow> version s = version t \<Longrightarrow> s = t"
proof (induction us arbitrary: c)
  case Nil
  then show ?case by simp
next
  case (Cons u us)
  let ?c' = "fst (submit c u)"
  have up: "x = publish c" if "x \<in> set (published ?c' us)" "version x = version (publish c)" for x
  proof -
    from published_lower [OF that(1)]
    have l: "version (publish ?c') \<le> version x"
      "version x = version (publish ?c') \<longrightarrow> x = publish ?c'" by simp_all
    have "\<not> applied (snd (submit c u))"
      using l(1) that(2) submit_version [of c u] by (auto split: if_splits)
    then show ?thesis
      using l(2) that(2) submit_version [of c u] submit_not_applied [of c u] by simp
  qed
  from Cons.prems(1,2) consider
      "s = publish c" "t = publish c"
    | "s = publish c" "t \<in> set (published ?c' us)"
    | "s \<in> set (published ?c' us)" "t = publish c"
    | "s \<in> set (published ?c' us)" "t \<in> set (published ?c' us)"
    by auto
  then show ?case
  proof cases
    case 1
    then show ?thesis by simp
  next
    case 2
    with up [of t] Cons.prems(3) show ?thesis by simp
  next
    case 3
    with up [of s] Cons.prems(3) show ?thesis by simp
  next
    case 4
    with Cons.IH [of ?c'] Cons.prems(3) show ?thesis by simp
  qed
qed

text \<open>The snapshots published along a run.\<close>

lemma length_published: "length (published c us) = Suc (length us)"
  by (induction us arbitrary: c) simp_all

lemma published_nth: "i \<le> length us \<Longrightarrow> published c us ! i = publish (run c (take i us))"
proof (induction us arbitrary: c i)
  case Nil
  then show ?case by simp
next
  case (Cons u us)
  then show ?case by (cases i) simp_all
qed


text \<open>
  Claim C1. For every sequence of \<open>submit\<close> calls the published version is non-decreasing
  over time, it grows by exactly one on each update that is applied (and not at all on a
  submission that is rejected or held), and any two snapshots published along the run with
  the same version have the same parameter vector.
\<close>

theorem version_monotone:
  "version (publish (fst (submit c u))) =
     (if applied (snd (submit c u)) then version (publish c) + 1 else version (publish c)) \<and>
   (i \<le> j \<and> j \<le> length us \<longrightarrow>
      version (publish (run c (take i us))) \<le> version (publish (run c (take j us))) \<and>
      (version (publish (run c (take i us))) = version (publish (run c (take j us))) \<longrightarrow>
         parameters (publish (run c (take i us))) = parameters (publish (run c (take j us)))))"
proof (intro conjI impI)
  show "version (publish (fst (submit c u))) =
     (if applied (snd (submit c u)) then version (publish c) + 1 else version (publish c))"
    by (rule submit_version)
next
  assume ij: "i \<le> j \<and> j \<le> length us"
  then have i: "published c us ! i = publish (run c (take i us))"
    and j: "published c us ! j = publish (run c (take j us))"
    by (simp_all add: published_nth)
  from ij have lt: "j < length (map version (published c us))"
    by (simp add: length_published)
  from ij lt sorted_nth_mono [OF published_sorted [of c us], of i j]
  have "map version (published c us) ! i \<le> map version (published c us) ! j"
    by simp
  with ij i j show "version (publish (run c (take i us))) \<le> version (publish (run c (take j us)))"
    by (simp add: length_published)
  assume eq: "version (publish (run c (take i us))) = version (publish (run c (take j us)))"
  from ij have "published c us ! i \<in> set (published c us)" "published c us ! j \<in> set (published c us)"
    by (simp_all add: length_published)
  from published_same_version [OF this] eq i j
  show "parameters (publish (run c (take i us))) = parameters (publish (run c (take j us)))"
    by simp
qed

theorem version_monotone_witness:
  "version (publish (fst (submit
      (seed (downpour_trainer 3 0 0) \<lparr>parameters = [1, 2], version = 0\<rparr>)
      \<lparr>workerId = 0, baseVersion = 0, delta = [5, 10]\<rparr>))) = 1 \<and>
   map (\<lambda>k. publish (run (seed (downpour_trainer 3 0 0) \<lparr>parameters = [1, 2], version = 0\<rparr>)
          (take k [\<lparr>workerId = 0, baseVersion = 0, delta = [5, 10]\<rparr>,
                   \<lparr>workerId = 1, baseVersion = 0, delta = [1]\<rparr>,
                   \<lparr>workerId = 2, baseVersion = 0, delta = [-5, 0]\<rparr>]))) [1, 2, 3] =
     [\<lparr>parameters = [0, 0], version = 1\<rparr>, \<lparr>parameters = [0, 0], version = 1\<rparr>,
      \<lparr>parameters = [1, 0], version = 2\<rparr>]"
  using version_monotone [of "seed (downpour_trainer 3 0 0) \<lparr>parameters = [1, 2], version = 0\<rparr>"
      "\<lparr>workerId = 0, baseVersion = 0, delta = [5, 10]\<rparr>" 1 2
      "[\<lparr>workerId = 0, baseVersion = 0, delta = [5, 10]\<rparr>,
        \<lparr>workerId = 1, baseVersion = 0, delta = [1]\<rparr>,
        \<lparr>workerId = 2, baseVersion = 0, delta = [-5, 0]\<rparr>]"]
  by (simp add: seed_def downpour_trainer_def submit_def Let_def commit_def publish_def
        applied_def vsub_def smul_def eval_nat_numeral)


section \<open>The coordinator: the round barrier of synchronous EASGD\<close>

text \<open>Vectors of one dimension: lengths and components of sums, multiples and averages.\<close>

lemma length_vadd: "length (vadd xs ys) = min (length xs) (length ys)"
  by (simp add: vadd_def)

lemma length_smul: "length (smul a xs) = length xs"
  by (simp add: smul_def)

lemma nth_vadd: "i < length xs \<Longrightarrow> i < length ys \<Longrightarrow> vadd xs ys ! i = xs ! i + ys ! i"
  by (simp add: vadd_def)

lemma nth_smul: "i < length xs \<Longrightarrow> smul a xs ! i = a * xs ! i"
  by (simp add: smul_def)

lemma length_vsum:
  "list_all (\<lambda>d. length d = n) ds \<Longrightarrow> length (foldr vadd ds (replicate n 0)) = n"
  by (induction ds) (simp_all add: length_vadd)

lemma nth_vsum:
  "list_all (\<lambda>d. length d = n) ds \<Longrightarrow> i < n \<Longrightarrow>
     foldr vadd ds (replicate n 0) ! i = (\<Sum>d\<leftarrow>ds. d ! i)"
  by (induction ds) (simp_all add: nth_vadd length_vsum)

lemma length_average:
  "list_all (\<lambda>d. length d = n) ds \<Longrightarrow> length (average n ds) = n"
  by (simp add: average_def length_smul length_vsum)

lemma nth_average:
  "list_all (\<lambda>d. length d = n) ds \<Longrightarrow> i < n \<Longrightarrow>
     average n ds ! i = (\<Sum>d\<leftarrow>ds. d ! i) / real (length ds)"
  by (simp add: average_def nth_smul length_vsum nth_vsum)


text \<open>
  Claim C2. In synchronous EASGD with three workers, at the start of a round, the updates
  of two distinct workers leave the center parameters and the version unchanged; the update
  of the third worker makes exactly one version increment and sets the center to the old
  center plus \<open>rho * learningRate\<close> times the average of the three deltas.
\<close>

theorem easgd_round_barrier:
  assumes "strategy (config c) = EASGD" and "numWorkers (config c) = 3"
    and "reporters c = []"
    and "distinct [workerId u1, workerId u2, workerId u3]"
    and "length (delta u1) = length (parameters (publish c))"
    and "length (delta u2) = length (parameters (publish c))"
    and "length (delta u3) = length (parameters (publish c))"
  shows "publish (run c [u1]) = publish c \<and>
         publish (run c [u1, u2]) = publish c \<and>
         outcome (snd (submit c u1)) = HeldAtBarrier \<and>
         outcome (snd (submit (run c [u1]) u2)) = HeldAtBarrier \<and>
         applied (snd (submit (run c [u1, u2]) u3)) \<and>
         version (publish (run c [u1, u2, u3])) = version (publish c) + 1 \<and>
         parameters (publish (run c [u1, u2, u3])) =
           map (\<lambda>i. parameters (publish c) ! i +
                     rho (config c) * learningRate (config c) *
                       ((delta u1 ! i + delta u2 ! i + delta u3 ! i) / 3))
               [0..<length (parameters (publish c))]"
proof -
  let ?n = "length (parameters (current c))"
  have all: "list_all (\<lambda>d. length d = ?n) [delta u1, delta u2, delta u3]"
    using assms(5-7) by (simp add: publish_def)
  have s1: "submit c u1 =
      (c\<lparr>reporters := [(workerId u1, delta u1)]\<rparr>,
       \<lparr>newVersion = version (current c), outcome = HeldAtBarrier,
        staleness = version (current c) - baseVersion u1\<rparr>)"
    using assms by (simp add: submit_def Let_def publish_def)
  have s2: "submit (c\<lparr>reporters := [(workerId u1, delta u1)]\<rparr>) u2 =
      (c\<lparr>reporters := [(workerId u1, delta u1), (workerId u2, delta u2)]\<rparr>,
       \<lparr>newVersion = version (current c), outcome = HeldAtBarrier,
        staleness = version (current c) - baseVersion u2\<rparr>)"
    using assms by (simp add: submit_def Let_def publish_def)
  have s3: "submit (c\<lparr>reporters := [(workerId u1, delta u1), (workerId u2, delta u2)]\<rparr>) u3 =
      (commit (c\<lparr>reporters := []\<rparr>)
         (vadd (parameters (current c))
            (smul (rho (config c) * learningRate (config c))
               (average ?n [delta u1, delta u2, delta u3]))),
       \<lparr>newVersion = version (current c) + 1, outcome = AcceptedAsIs,
        staleness = version (current c) - baseVersion u3\<rparr>)"
    using assms by (simp add: submit_def Let_def publish_def)
  have vec: "vadd (parameters (current c))
            (smul (rho (config c) * learningRate (config c))
               (average ?n [delta u1, delta u2, delta u3])) =
       map (\<lambda>i. parameters (current c) ! i +
                     rho (config c) * learningRate (config c) *
                       ((delta u1 ! i + delta u2 ! i + delta u3 ! i) / 3))
               [0..<?n]"
    by (rule nth_equalityI)
       (simp_all add: length_vadd length_smul length_average [OF all] nth_vadd nth_smul
          nth_average [OF all])
  show ?thesis
    by (simp add: s1 s2 s3 vec publish_def commit_def applied_def)
qed

theorem easgd_round_barrier_witness:
  "publish (run (seed (easgd_trainer 3 1) \<lparr>parameters = [0, 10], version = 7\<rparr>)
      [\<lparr>workerId = 0, baseVersion = 7, delta = [3, -3]\<rparr>,
       \<lparr>workerId = 1, baseVersion = 7, delta = [6, 0]\<rparr>]) =
     \<lparr>parameters = [0, 10], version = 7\<rparr> \<and>
   publish (run (seed (easgd_trainer 3 1) \<lparr>parameters = [0, 10], version = 7\<rparr>)
      [\<lparr>workerId = 0, baseVersion = 7, delta = [3, -3]\<rparr>,
       \<lparr>workerId = 1, baseVersion = 7, delta = [6, 0]\<rparr>,
       \<lparr>workerId = 2, baseVersion = 5, delta = [0, 3]\<rparr>]) =
     \<lparr>parameters = [3, 10], version = 8\<rparr>"
  using easgd_round_barrier [of "seed (easgd_trainer 3 1) \<lparr>parameters = [0, 10], version = 7\<rparr>"
      "\<lparr>workerId = 0, baseVersion = 7, delta = [3, -3]\<rparr>"
      "\<lparr>workerId = 1, baseVersion = 7, delta = [6, 0]\<rparr>"
      "\<lparr>workerId = 2, baseVersion = 5, delta = [0, 3]\<rparr>"]
  by (simp add: seed_def easgd_trainer_def submit_def Let_def commit_def publish_def
        vadd_def smul_def average_def)


end
